theory Spec2Isabelle
  imports Complex_Main
begin

chapter \<open>The program\<close>

section \<open>Numbers and vectors\<close>

text \<open>
  The program computes with C++ \<^verbatim>\<open>float\<close> values and \<^verbatim>\<open>glm::vec3\<close> triples. The
  development idealises \<^verbatim>\<open>float\<close> as \<^typ>\<open>real\<close>: arithmetic is exact, there is no
  rounding, no infinity and no NaN, and the decimal approximations of \<open>\<pi>\<close> that the
  source and glm use are the number \<^term>\<open>pi\<close>. Every statement below about lengths,
  dot products and trigonometric values is a statement about this exact arithmetic.
\<close>

datatype vec3 = Vec3 (vec_x: real) (vec_y: real) (vec_z: real)

text \<open>\<^verbatim>\<open>a + b\<close>, \<^verbatim>\<open>a - b\<close> on \<^verbatim>\<open>vec3\<close>: componentwise.\<close>

fun vec3_add :: "vec3 \<Rightarrow> vec3 \<Rightarrow> vec3" where
  "vec3_add (Vec3 a b c) (Vec3 d e f) = Vec3 (a + d) (b + e) (c + f)"

fun vec3_sub :: "vec3 \<Rightarrow> vec3 \<Rightarrow> vec3" where
  "vec3_sub (Vec3 a b c) (Vec3 d e f) = Vec3 (a - d) (b - e) (c - f)"

text \<open>\<^verbatim>\<open>v * s\<close> and \<^verbatim>\<open>s * v\<close> for a scalar \<^verbatim>\<open>s\<close>: every component is multiplied.\<close>

fun vec3_scale :: "vec3 \<Rightarrow> real \<Rightarrow> vec3" where
  "vec3_scale (Vec3 a b c) s = Vec3 (a * s) (b * s) (c * s)"

text \<open>\<^verbatim>\<open>a * b\<close> on two \<^verbatim>\<open>vec3\<close> (GLSL and glm alike): componentwise product.\<close>

fun vec3_mul :: "vec3 \<Rightarrow> vec3 \<Rightarrow> vec3" where
  "vec3_mul (Vec3 a b c) (Vec3 d e f) = Vec3 (a * d) (b * e) (c * f)"

text \<open>\<^verbatim>\<open>glm::dot\<close>, \<^verbatim>\<open>glm::cross\<close> (the component formula of glm's \<^verbatim>\<open>geometric\<close>
  functions), \<^verbatim>\<open>glm::inversesqrt\<close>, \<^verbatim>\<open>glm::normalize\<close> (\<^verbatim>\<open>x * inversesqrt(dot(x, x))\<close>)
  and \<^verbatim>\<open>glm::radians\<close> (degrees times \<open>\<pi>/180\<close>).\<close>

fun dot :: "vec3 \<Rightarrow> vec3 \<Rightarrow> real" where
  "dot (Vec3 a b c) (Vec3 d e f) = a * d + b * e + c * f"

fun cross :: "vec3 \<Rightarrow> vec3 \<Rightarrow> vec3" where
  "cross (Vec3 a b c) (Vec3 d e f) = Vec3 (b * f - e * c) (c * d - f * a) (a * e - d * b)"

definition inversesqrt :: "real \<Rightarrow> real" where
  "inversesqrt s = 1 / sqrt s"

definition normalize_vec3 :: "vec3 \<Rightarrow> vec3" where
  "normalize_vec3 v = vec3_scale v (inversesqrt (dot v v))"

definition radians :: "real \<Rightarrow> real" where
  "radians degrees = degrees * (pi / 180)"

definition vec3_length :: "vec3 \<Rightarrow> real" where
  "vec3_length v = sqrt (dot v v)"

section \<open>The camera\<close>

datatype Camera_Movement = FORWARD | BACKWARD | LEFT | RIGHT

definition YAW :: real where "YAW = -90"
definition PITCH :: real where "PITCH = 0"
definition SPEED :: real where "SPEED = 2.5"
definition SENSITIVITY :: real where "SENSITIVITY = 0.1"
definition ZOOM :: real where "ZOOM = 45"

record Camera =
  Position :: vec3
  Front :: vec3
  Up :: vec3
  Right :: vec3
  WorldUp :: vec3
  Yaw :: real
  Pitch :: real
  MovementSpeed :: real
  MouseSensitivity :: real
  Zoom :: real

text \<open>
  \<^verbatim>\<open>Camera::updateCameraVectors\<close>: the three assignments in the order of the source;
  the second reads the \<^verbatim>\<open>Front\<close> just written, the third the new \<^verbatim>\<open>Right\<close> and
  \<^verbatim>\<open>Front\<close>.
\<close>

definition updateCameraVectors :: "Camera \<Rightarrow> Camera" where
  "updateCameraVectors c =
     (let front = Vec3 (cos (radians (Yaw c)) * cos (radians (Pitch c)))
                       (sin (radians (Pitch c)))
                       (sin (radians (Yaw c)) * cos (radians (Pitch c)));
          c1 = c\<lparr>Front := normalize_vec3 front\<rparr>;
          c2 = c1\<lparr>Right := normalize_vec3 (cross (Front c1) (WorldUp c1))\<rparr>;
          c3 = c2\<lparr>Up := normalize_vec3 (cross (Right c2) (Front c2))\<rparr>
      in c3)"

text \<open>
  The constructor with vectors. The initialiser list sets \<^verbatim>\<open>Front\<close>, the speed, the
  sensitivity and the zoom; the body sets position, world-up, yaw and pitch and calls
  \<^verbatim>\<open>updateCameraVectors\<close>, which overwrites all three basis vectors. \<^verbatim>\<open>Up\<close> and
  \<^verbatim>\<open>Right\<close> hold no meaningful value before that call; the model starts them at
  zero.
\<close>

definition Camera_new :: "vec3 \<Rightarrow> vec3 \<Rightarrow> real \<Rightarrow> real \<Rightarrow> Camera" where
  "Camera_new position up yaw pitch =
     updateCameraVectors
       \<lparr>Position = position, Front = Vec3 0 0 (-1), Up = Vec3 0 0 0, Right = Vec3 0 0 0,
        WorldUp = up, Yaw = yaw, Pitch = pitch,
        MovementSpeed = SPEED, MouseSensitivity = SENSITIVITY, Zoom = ZOOM\<rparr>"

text \<open>The global \<^verbatim>\<open>Camera camera(glm::vec3(0.0f, 0.0f, 5.0f))\<close>: default up, yaw, pitch.\<close>

definition camera :: Camera where
  "camera = Camera_new (Vec3 0 0 5) (Vec3 0 1 0) YAW PITCH"

text \<open>\<^verbatim>\<open>Camera::ProcessKeyboard\<close>: four independent \<^verbatim>\<open>if\<close> statements, run in order.\<close>

definition ProcessKeyboard :: "Camera \<Rightarrow> Camera_Movement \<Rightarrow> real \<Rightarrow> Camera" where
  "ProcessKeyboard c direction deltaTime =
     (let velocity = MovementSpeed c * deltaTime;
          c1 = (if direction = FORWARD
                then c\<lparr>Position := vec3_add (Position c) (vec3_scale (Front c) velocity)\<rparr>
                else c);
          c2 = (if direction = BACKWARD
                then c1\<lparr>Position := vec3_sub (Position c1) (vec3_scale (Front c1) velocity)\<rparr>
                else c1);
          c3 = (if direction = LEFT
                then c2\<lparr>Position := vec3_sub (Position c2) (vec3_scale (Right c2) velocity)\<rparr>
                else c2);
          c4 = (if direction = RIGHT
                then c3\<lparr>Position := vec3_add (Position c3) (vec3_scale (Right c3) velocity)\<rparr>
                else c3)
      in c4)"

text \<open>\<^verbatim>\<open>Camera::ProcessMouseMovement\<close>.\<close>

definition ProcessMouseMovement :: "Camera \<Rightarrow> real \<Rightarrow> real \<Rightarrow> bool \<Rightarrow> Camera" where
  "ProcessMouseMovement c xoffset yoffset constrainPitch =
     (let xoffset1 = xoffset * MouseSensitivity c;
          yoffset1 = yoffset * MouseSensitivity c;
          c1 = c\<lparr>Yaw := Yaw c + xoffset1\<rparr>;
          c2 = c1\<lparr>Pitch := Pitch c1 + yoffset1\<rparr>;
          c3 = (if constrainPitch
                then (let c2a = (if Pitch c2 > 89 then c2\<lparr>Pitch := 89\<rparr> else c2);
                          c2b = (if Pitch c2a < -89 then c2a\<lparr>Pitch := -89\<rparr> else c2a)
                      in c2b)
                else c2)
      in updateCameraVectors c3)"

text \<open>\<^verbatim>\<open>Camera::ProcessMouseScroll\<close>.\<close>

definition ProcessMouseScroll :: "Camera \<Rightarrow> real \<Rightarrow> Camera" where
  "ProcessMouseScroll c yoffset =
     (let c1 = c\<lparr>Zoom := Zoom c - yoffset\<rparr>;
          c2 = (if Zoom c1 < 1 then c1\<lparr>Zoom := 1\<rparr> else c1);
          c3 = (if Zoom c2 > 45 then c2\<lparr>Zoom := 45\<rparr> else c2)
      in c3)"

text \<open>\<^verbatim>\<open>Camera::Set\<close>.\<close>

definition Set_camera :: "Camera \<Rightarrow> vec3 \<Rightarrow> Camera" where
  "Set_camera c po =
     updateCameraVectors
       (c\<lparr>Position := Vec3 (vec_x po) (vec_y po) (vec_z po), Yaw := -90, Pitch := 0\<rparr>)"

text \<open>
  A sequence of look calls, each an (xoffset, yoffset) pair passed to
  \<^verbatim>\<open>ProcessMouseMovement\<close> with the default \<^verbatim>\<open>constrainPitch = true\<close> (as
  \<^verbatim>\<open>mouse_callback\<close> does), and a sequence of zoom calls (as \<^verbatim>\<open>scroll_callback\<close>
  does).
\<close>

fun look_all :: "Camera \<Rightarrow> (real \<times> real) list \<Rightarrow> Camera" where
  "look_all c [] = c"
| "look_all c ((xoffset, yoffset) # rest) =
     look_all (ProcessMouseMovement c xoffset yoffset True) rest"

fun zoom_all :: "Camera \<Rightarrow> real list \<Rightarrow> Camera" where
  "zoom_all c [] = c"
| "zoom_all c (yoffset # rest) = zoom_all (ProcessMouseScroll c yoffset) rest"

text \<open>
  The frame the basis update is specified to compute, written from its description:
  the front vector from yaw and pitch in degrees, the right vector as the normalised
  cross product of front with world-up (in that order), the up vector as the
  normalised cross product of right with front.
\<close>

definition basis_front :: "real \<Rightarrow> real \<Rightarrow> vec3" where
  "basis_front yaw pitch =
     normalize_vec3 (Vec3 (cos (radians yaw) * cos (radians pitch))
                          (sin (radians pitch))
                          (sin (radians yaw) * cos (radians pitch)))"

definition basis_right :: "real \<Rightarrow> real \<Rightarrow> vec3 \<Rightarrow> vec3" where
  "basis_right yaw pitch worldUp = normalize_vec3 (cross (basis_front yaw pitch) worldUp)"

definition basis_up :: "real \<Rightarrow> real \<Rightarrow> vec3 \<Rightarrow> vec3" where
  "basis_up yaw pitch worldUp =
     normalize_vec3 (cross (basis_right yaw pitch worldUp) (basis_front yaw pitch))"

text \<open>
  Orthonormal triples and their orientation: three pairwise orthogonal unit vectors;
  an ordered triple is right-handed when its scalar triple product is positive, which
  for an orthonormal triple means that the cross product of the first two vectors is
  the third.
\<close>

definition orthonormal :: "vec3 \<Rightarrow> vec3 \<Rightarrow> vec3 \<Rightarrow> bool" where
  "orthonormal a b c =
     (dot a b = 0 \<and> dot a c = 0 \<and> dot b c = 0
      \<and> vec3_length a = 1 \<and> vec3_length b = 1 \<and> vec3_length c = 1)"

definition right_handed :: "vec3 \<Rightarrow> vec3 \<Rightarrow> vec3 \<Rightarrow> bool" where
  "right_handed a b c = (0 < dot (cross a b) c)"

text \<open>
  The frame of a camera in the convention of its view matrix: the camera looks along
  its front vector, so its x, y and z axes are right, up and the opposite of front.
  The predicate says that front, right and up are orthonormal, that the axes (right, up,
  minus front) are right-handed with right \<open>\<times>\<close> up = minus front, and that the
  triple in the order (front, right, up) is therefore not right-handed.
\<close>

definition camera_frame :: "Camera \<Rightarrow> bool" where
  "camera_frame c =
     (orthonormal (Front c) (Right c) (Up c)
      \<and> cross (Right c) (Up c) = vec3_scale (Front c) (- 1)
      \<and> right_handed (Right c) (Up c) (vec3_scale (Front c) (- 1))
      \<and> \<not> right_handed (Front c) (Right c) (Up c))"

text \<open>
  The states the program's camera can be in: it starts as \<^const>\<open>camera\<close>;
  \<^verbatim>\<open>processInput\<close> moves it (keys W, S, A, D) or resets it to the position
  (0, 0, 5) (key P), \<^verbatim>\<open>mouse_callback\<close> turns it with the default
  \<^verbatim>\<open>constrainPitch = true\<close>, and \<^verbatim>\<open>scroll_callback\<close> zooms it.
\<close>

inductive reachable :: "Camera \<Rightarrow> bool" where
  initial: "reachable camera"
| move: "reachable c \<Longrightarrow> reachable (ProcessKeyboard c direction deltaTime)"
| look: "reachable c \<Longrightarrow> reachable (ProcessMouseMovement c xoffset yoffset True)"
| zoom: "reachable c \<Longrightarrow> reachable (ProcessMouseScroll c yoffset)"
| reset: "reachable c \<Longrightarrow> reachable (Set_camera c (Vec3 0 0 5))"

section \<open>The sphere mesh\<close>

definition PI :: real where "PI = pi"
definition X_SEGMENTS :: int where "X_SEGMENTS = 70"
definition Y_SEGMENTS :: int where "Y_SEGMENTS = 70"

text \<open>
  The two nested loops of \<^verbatim>\<open>main\<close> that fill \<^verbatim>\<open>sphereVertices\<close>, with the segment
  counts as parameters \<open>xseg\<close> and \<open>yseg\<close> (the program fixes both at 70). The inner
  loop runs \<^verbatim>\<open>x\<close> from its current value up to and including \<open>xseg\<close> and appends
  three floats per iteration; the outer loop runs \<^verbatim>\<open>y\<close> up to and including
  \<open>yseg\<close>. Loop counters and indices are C \<^verbatim>\<open>int\<close>s, modelled as \<^typ>\<open>int\<close>: for the
  program's constants no value exceeds 5041.
\<close>

function sphere_vertex_loop_x :: "int \<Rightarrow> int \<Rightarrow> int \<Rightarrow> int \<Rightarrow> real list \<Rightarrow> real list" where
  "sphere_vertex_loop_x xseg yseg y x sphereVertices =
     (if x \<le> xseg
      then (let xSegment = real_of_int x / real_of_int xseg;
                ySegment = real_of_int y / real_of_int yseg;
                xPos = cos (xSegment * 2 * PI) * sin (ySegment * PI);
                yPos = cos (ySegment * PI);
                zPos = sin (xSegment * 2 * PI) * sin (ySegment * PI)
            in sphere_vertex_loop_x xseg yseg y (x + 1) (sphereVertices @ [xPos, yPos, zPos]))
      else sphereVertices)"
  by pat_completeness auto
termination
  by (relation "measure (\<lambda>(xseg, yseg, y, x, sphereVertices). nat (xseg + 1 - x))") auto

declare sphere_vertex_loop_x.simps [simp del]

function sphere_vertex_loop_y :: "int \<Rightarrow> int \<Rightarrow> int \<Rightarrow> real list \<Rightarrow> real list" where
  "sphere_vertex_loop_y xseg yseg y sphereVertices =
     (if y \<le> yseg
      then sphere_vertex_loop_y xseg yseg (y + 1)
             (sphere_vertex_loop_x xseg yseg y 0 sphereVertices)
      else sphereVertices)"
  by pat_completeness auto
termination
  by (relation "measure (\<lambda>(xseg, yseg, y, sphereVertices). nat (yseg + 1 - y))") auto

declare sphere_vertex_loop_y.simps [simp del]

definition sphereVertices :: "int \<Rightarrow> int \<Rightarrow> real list" where
  "sphereVertices xseg yseg = sphere_vertex_loop_y xseg yseg 0 []"

text \<open>The two nested loops that fill \<^verbatim>\<open>sphereIndices\<close>: six entries per grid quad.\<close>

function sphere_index_loop_j :: "int \<Rightarrow> int \<Rightarrow> int \<Rightarrow> int list \<Rightarrow> int list" where
  "sphere_index_loop_j xseg i j sphereIndices =
     (if j < xseg
      then sphere_index_loop_j xseg i (j + 1)
             (sphereIndices @
               [i * (xseg + 1) + j,
                (i + 1) * (xseg + 1) + j,
                (i + 1) * (xseg + 1) + j + 1,
                i * (xseg + 1) + j,
                (i + 1) * (xseg + 1) + j + 1,
                i * (xseg + 1) + j + 1])
      else sphereIndices)"
  by pat_completeness auto
termination
  by (relation "measure (\<lambda>(xseg, i, j, sphereIndices). nat (xseg - j))") auto

declare sphere_index_loop_j.simps [simp del]

function sphere_index_loop_i :: "int \<Rightarrow> int \<Rightarrow> int \<Rightarrow> int list \<Rightarrow> int list" where
  "sphere_index_loop_i xseg yseg i sphereIndices =
     (if i < yseg
      then sphere_index_loop_i xseg yseg (i + 1) (sphere_index_loop_j xseg i 0 sphereIndices)
      else sphereIndices)"
  by pat_completeness auto
termination
  by (relation "measure (\<lambda>(xseg, yseg, i, sphereIndices). nat (yseg - i))") auto

declare sphere_index_loop_i.simps [simp del]

definition sphereIndices :: "int \<Rightarrow> int \<Rightarrow> int list" where
  "sphereIndices xseg yseg = sphere_index_loop_i xseg yseg 0 []"

text \<open>The element count passed to \<^verbatim>\<open>glDrawElements\<close>.\<close>

definition draw_count :: "int \<Rightarrow> int \<Rightarrow> int" where
  "draw_count xseg yseg = xseg * yseg * 6"

text \<open>
  The vertices as the loops emit them, three consecutive floats each: their number,
  and the \<open>k\<close>-th vertex emitted. (How the draw call reads the buffer is a
  separate matter, modelled by \<open>attrib_fetch\<close> below.)
\<close>

definition vertex_count :: "real list \<Rightarrow> nat" where
  "vertex_count vs = length vs div 3"

definition vertex_at :: "real list \<Rightarrow> nat \<Rightarrow> vec3" where
  "vertex_at vs k = Vec3 (vs ! (3 * k)) (vs ! (3 * k + 1)) (vs ! (3 * k + 2))"

text \<open>
  The point of the unit sphere that the generator is specified to emit for grid cell
  \<open>(x, y)\<close>, with \<open>u = x / xseg\<close> and \<open>v = y / yseg\<close>.
\<close>

definition sphere_point :: "int \<Rightarrow> int \<Rightarrow> int \<Rightarrow> int \<Rightarrow> vec3" where
  "sphere_point xseg yseg x y =
     (let u = real_of_int x / real_of_int xseg; v = real_of_int y / real_of_int yseg
      in Vec3 (cos (2 * pi * u) * sin (pi * v)) (cos (pi * v)) (sin (2 * pi * u) * sin (pi * v)))"

text \<open>
  What one iteration of each inner loop appends: the three floats of grid cell
  \<open>(x, y)\<close>, with the expressions of the source, and the six indices of the quad
  at row \<open>i\<close>, column \<open>j\<close>.
\<close>

definition grid_floats :: "int \<Rightarrow> int \<Rightarrow> int \<Rightarrow> int \<Rightarrow> real list" where
  "grid_floats xseg yseg y x =
     [cos (real_of_int x / real_of_int xseg * 2 * PI) * sin (real_of_int y / real_of_int yseg * PI),
      cos (real_of_int y / real_of_int yseg * PI),
      sin (real_of_int x / real_of_int xseg * 2 * PI) * sin (real_of_int y / real_of_int yseg * PI)]"

definition quad_indices :: "int \<Rightarrow> int \<Rightarrow> int \<Rightarrow> int list" where
  "quad_indices xseg i j =
     [i * (xseg + 1) + j,
      (i + 1) * (xseg + 1) + j,
      (i + 1) * (xseg + 1) + j + 1,
      i * (xseg + 1) + j,
      (i + 1) * (xseg + 1) + j + 1,
      i * (xseg + 1) + j + 1]"

text \<open>
  What one pass of each outer loop appends: the floats of row \<open>y\<close> of the grid and
  the indices of the quads of row \<open>i\<close>.
\<close>

definition vertex_row :: "int \<Rightarrow> int \<Rightarrow> int \<Rightarrow> real list" where
  "vertex_row xseg yseg y = concat (map (grid_floats xseg yseg y) [0..xseg])"

definition index_row :: "int \<Rightarrow> int \<Rightarrow> int list" where
  "index_row xseg i = concat (map (quad_indices xseg i) [0..xseg - 1])"

text \<open>
  How the draw call reads the vertex buffer. \<^verbatim>\<open>glBufferData\<close> uploads the float array
  \<^verbatim>\<open>sphereVertices\<close> as it is; the two \<^verbatim>\<open>glVertexAttribPointer\<close> calls that follow
  describe it to OpenGL: attribute 0 (the position \<^verbatim>\<open>aPos\<close>) has 3 floats per vertex,
  a stride of \<^verbatim>\<open>6 * sizeof(float)\<close> and starts at byte 0; attribute 1 (the normal
  \<^verbatim>\<open>aNormal\<close>) has 3 floats per vertex, the same stride and starts at
  \<^verbatim>\<open>3 * sizeof(float)\<close>. Sizes are counted in floats here. For the vertex with index
  \<open>k\<close>, OpenGL reads the attribute's floats starting at pointer + stride \<open>\<times>\<close> k; a
  read that does not lie inside the buffer has no defined result, which is
  \<^const>\<open>None\<close>. \<^verbatim>\<open>glDrawElements\<close> with a count reads both enabled attributes for each
  of the first count entries of the index buffer.
\<close>

record vertex_attrib =
  attrib_size :: nat
  attrib_stride :: nat
  attrib_pointer :: nat

definition sphere_attrib0 :: vertex_attrib where
  "sphere_attrib0 = \<lparr>attrib_size = 3, attrib_stride = 6, attrib_pointer = 0\<rparr>"

definition sphere_attrib1 :: vertex_attrib where
  "sphere_attrib1 = \<lparr>attrib_size = 3, attrib_stride = 6, attrib_pointer = 3\<rparr>"

definition attrib_fetch :: "real list \<Rightarrow> vertex_attrib \<Rightarrow> nat \<Rightarrow> real list option" where
  "attrib_fetch buffer a k =
     (let first = attrib_pointer a + attrib_stride a * k
      in if first + attrib_size a \<le> length buffer
         then Some (take (attrib_size a) (drop first buffer))
         else None)"

definition glDrawElements :: "real list \<Rightarrow> int list \<Rightarrow> int \<Rightarrow> (real list option \<times> real list option) list" where
  "glDrawElements buffer indices count =
     map (\<lambda>idx. (attrib_fetch buffer sphere_attrib0 (nat idx),
                 attrib_fetch buffer sphere_attrib1 (nat idx)))
         (take (nat count) indices)"

section \<open>The animated light\<close>

text \<open>
  The three assignments to the global \<^verbatim>\<open>lightPos\<close> in the render loop, in source order
  (\<^verbatim>\<open>x\<close>, \<^verbatim>\<open>z\<close>, \<^verbatim>\<open>y\<close>); \<^verbatim>\<open>currentFrame\<close> is the elapsed time.
\<close>

definition lightPos_init :: vec3 where
  "lightPos_init = Vec3 0 0 8"

definition animate_lightPos :: "vec3 \<Rightarrow> real \<Rightarrow> vec3" where
  "animate_lightPos lightPos currentFrame =
     (let l1 = Vec3 (5 * cos currentFrame) (vec_y lightPos) (vec_z lightPos);
          l2 = Vec3 (vec_x l1) (vec_y l1) (5 * sin currentFrame);
          l3 = Vec3 (vec_x l2) (cos currentFrame * 2) (vec_z l2)
      in l3)"

section \<open>The fragment shaders\<close>

datatype vec4 = Vec4 (vec4_rgb: vec3) (vec4_a: real)

text \<open>
  \<^verbatim>\<open>main\<close> of the GLSL fragment shaders \<^verbatim>\<open>f_basic_lighting\<close> (uniform object colour)
  and \<^verbatim>\<open>f_humor_drill\<close> (per-vertex colour), statement by statement. GLSL's
  \<^verbatim>\<open>normalize\<close> divides a vector by its length, which in exact arithmetic is
  \<^const>\<open>normalize_vec3\<close>; \<^verbatim>\<open>vec4(result, 1.0)\<close> is \<^term>\<open>Vec4 result 1\<close>.
\<close>

definition f_basic_lighting :: "vec3 \<Rightarrow> vec3 \<Rightarrow> vec3 \<Rightarrow> vec3 \<Rightarrow> vec3 \<Rightarrow> vec4" where
  "f_basic_lighting Normal FragPos lightPos lightColor objectColor =
     (let ambientStrength = 0.15;
          ambient = vec3_scale lightColor ambientStrength;
          norm = normalize_vec3 Normal;
          lightDir = normalize_vec3 (vec3_sub lightPos FragPos);
          diff = max (dot norm lightDir) 0;
          diffuse = vec3_scale lightColor diff;
          result = vec3_mul (vec3_add ambient diffuse) objectColor
      in Vec4 result 1)"

definition f_humor_drill :: "vec3 \<Rightarrow> vec3 \<Rightarrow> vec3 \<Rightarrow> vec3 \<Rightarrow> vec3 \<Rightarrow> vec4" where
  "f_humor_drill Normal FragPos objectColor lightPos lightColor =
     (let ambientStrength = 0.2;
          ambient = vec3_scale lightColor ambientStrength;
          norm = normalize_vec3 Normal;
          lightDir = normalize_vec3 (vec3_sub lightPos FragPos);
          diff = max (dot norm lightDir) 0;
          diffuse = vec3_scale lightColor diff;
          result = vec3_mul (vec3_add ambient diffuse) objectColor
      in Vec4 result 1)"

text \<open>
  The shading rule as it is specified: ambient plus diffuse light, times the object
  colour, with alpha 1.
\<close>

definition phong_ambient :: "real \<Rightarrow> vec3 \<Rightarrow> vec3" where
  "phong_ambient ambientStrength lightColor = vec3_scale lightColor ambientStrength"

definition phong_diffuse :: "vec3 \<Rightarrow> vec3 \<Rightarrow> vec3 \<Rightarrow> vec3 \<Rightarrow> vec3" where
  "phong_diffuse normal fragPos lightPos lightColor =
     vec3_scale lightColor
       (max (dot (normalize_vec3 normal) (normalize_vec3 (vec3_sub lightPos fragPos))) 0)"

definition phong_color :: "real \<Rightarrow> vec3 \<Rightarrow> vec3 \<Rightarrow> vec3 \<Rightarrow> vec3 \<Rightarrow> vec3 \<Rightarrow> vec4" where
  "phong_color ambientStrength normal fragPos lightPos lightColor objectColor =
     Vec4 (vec3_mul (vec3_add (phong_ambient ambientStrength lightColor)
                              (phong_diffuse normal fragPos lightPos lightColor))
                    objectColor) 1"

chapter \<open>Properties\<close>

section \<open>Identities of the vector operations\<close>

lemma unit_sphere_identity:
  fixes a b c s :: real
  assumes "a * a + c * c = 1" and "b * b + s * s = 1"
  shows "a * b * (a * b) + s * s + c * b * (c * b) = 1"
proof -
  have "a * b * (a * b) + s * s + c * b * (c * b) = (a * a + c * c) * (b * b) + s * s"
    by (simp add: algebra_simps)
  with assms show ?thesis by simp
qed

lemma cos_sin_unit: "cos t * cos t + sin t * sin t = (1::real)"
  by (rule sin_cos_squared_add3)

lemma normalize_unit: "dot v v = 1 \<Longrightarrow> normalize_vec3 v = v"
  by (cases v) (simp add: normalize_vec3_def inversesqrt_def)

lemma scaled_unit_identity:
  fixes a b c :: real
  assumes "a * a + c * c = 1"
  shows "c * b * (c * b) + a * b * (a * b) = b * b"
proof -
  have "c * b * (c * b) + a * b * (a * b) = (a * a + c * c) * (b * b)"
    by (simp add: algebra_simps)
  with assms show ?thesis by simp
qed

lemma factor_unit_identity:
  fixes a b c :: real
  assumes "a * a + c * c = 1"
  shows "a * (a * b) + c * b * c = b"
proof -
  have "a * (a * b) + c * b * c = (a * a + c * c) * b"
    by (simp add: algebra_simps)
  with assms show ?thesis by simp
qed

lemma pitch_factor_identity:
  fixes a b c s :: real
  assumes "a * a + c * c = 1"
  shows "s * b - (a * a * b * s + c * c * b * s) = 0"
proof -
  have "s * b - (a * a * b * s + c * c * b * s) = (1 - (a * a + c * c)) * (b * s)"
    by (simp add: algebra_simps)
  with assms show ?thesis by simp
qed

lemma frame_dot_front_up:
  fixes a b c s :: real
  assumes "a * a + c * c = 1"
  shows "dot (Vec3 (a * b) s (c * b)) (Vec3 (- (s * a)) b (- (s * c))) = 0"
  using pitch_factor_identity [OF assms, of s b] by (simp add: algebra_simps)

lemma frame_cross_right_up:
  fixes a b c s :: real
  assumes "a * a + c * c = 1"
  shows "cross (Vec3 (- c) 0 a) (Vec3 (- (s * a)) b (- (s * c))) = Vec3 (- (a * b)) (- s) (- (c * b))"
proof -
  have "s * (a * a) + s * (c * c) = s * (a * a + c * c)"
    by (simp add: algebra_simps)
  with assms have "s * (a * a) + s * (c * c) = s" by simp
  then show ?thesis by (simp add: algebra_simps)
qed

lemma frame_cross_front_right:
  fixes a b c s :: real
  assumes "a * a + c * c = 1"
  shows "cross (Vec3 (a * b) s (c * b)) (Vec3 (- c) 0 a) = Vec3 (s * a) (- b) (s * c)"
proof -
  have "b * (a * a) + b * (c * c) = b * (a * a + c * c)"
    by (simp add: algebra_simps)
  with assms have "b * (a * a) + b * (c * c) = b" by simp
  then show ?thesis by (simp add: algebra_simps)
qed

lemma frame_algebra:
  fixes a b c s :: real
  assumes yaw: "a * a + c * c = 1" and pitch: "b * b + s * s = 1"
  defines "F \<equiv> Vec3 (a * b) s (c * b)"
    and "R \<equiv> Vec3 (- c) 0 a"
    and "U \<equiv> Vec3 (- (s * a)) b (- (s * c))"
  shows "orthonormal F R U"
    and "cross R U = vec3_scale F (- 1)"
    and "dot (cross R U) (vec3_scale F (- 1)) = 1"
    and "dot (cross F R) U = - 1"
proof -
  have ff: "dot F F = 1"
    unfolding F_def using unit_sphere_identity [OF yaw pitch] by simp
  have rr: "dot R R = 1"
    unfolding R_def using yaw by (simp add: add.commute)
  have "a * s * (a * s) + b * b + c * s * (c * s) = 1"
    by (rule unit_sphere_identity [OF yaw]) (use pitch in \<open>simp add: add.commute\<close>)
  then have uu: "dot U U = 1"
    unfolding U_def by (simp add: algebra_simps)
  have fr: "dot F R = 0"
    unfolding F_def R_def by simp
  have fu: "dot F U = 0"
    unfolding F_def U_def by (rule frame_dot_front_up [OF yaw])
  have ru: "dot R U = 0"
    unfolding R_def U_def by simp
  show "orthonormal F R U"
    by (simp add: orthonormal_def vec3_length_def ff rr uu fr fu ru)
  have "cross R U = Vec3 (- (a * b)) (- s) (- (c * b))"
    unfolding R_def U_def by (rule frame_cross_right_up [OF yaw])
  also have "\<dots> = vec3_scale F (- 1)"
    unfolding F_def by simp
  finally show c1: "cross R U = vec3_scale F (- 1)" .
  have "dot (vec3_scale F (- 1)) (vec3_scale F (- 1)) = dot F F"
    by (cases F) simp
  then show "dot (cross R U) (vec3_scale F (- 1)) = 1"
    by (simp only: c1 ff)
  have "cross F R = Vec3 (s * a) (- b) (s * c)"
    unfolding F_def R_def by (rule frame_cross_front_right [OF yaw])
  also have "\<dots> = vec3_scale U (- 1)"
    unfolding U_def by simp
  finally have "cross F R = vec3_scale U (- 1)" .
  moreover have "dot (vec3_scale U (- 1)) U = - dot U U"
    by (cases U) simp
  ultimately show "dot (cross F R) U = - 1"
    by (simp only: uu)
qed

section \<open>The basis update\<close>

lemma updateCameraVectors_eq:
  "updateCameraVectors c =
     c\<lparr>Front := basis_front (Yaw c) (Pitch c),
       Right := basis_right (Yaw c) (Pitch c) (WorldUp c),
       Up := basis_up (Yaw c) (Pitch c) (WorldUp c)\<rparr>"
  by (simp add: updateCameraVectors_def Let_def basis_front_def basis_right_def basis_up_def)

lemma updateCameraVectors_fields:
  "Yaw (updateCameraVectors c) = Yaw c"
  "Pitch (updateCameraVectors c) = Pitch c"
  "WorldUp (updateCameraVectors c) = WorldUp c"
  "Position (updateCameraVectors c) = Position c"
  "Zoom (updateCameraVectors c) = Zoom c"
  "MovementSpeed (updateCameraVectors c) = MovementSpeed c"
  "MouseSensitivity (updateCameraVectors c) = MouseSensitivity c"
  by (simp_all add: updateCameraVectors_eq)

lemma updateCameraVectors_idem:
  "updateCameraVectors (updateCameraVectors c) = updateCameraVectors c"
  by (simp add: updateCameraVectors_eq)

text \<open>
  Claim C2. For yaw and pitch in degrees, \<^verbatim>\<open>updateCameraVectors\<close> sets Front to the
  normalised vector (cos yaw cos pitch, sin pitch, sin yaw cos pitch), then Right to
  the normalised cross product of the new Front with WorldUp (front first), then Up
  to the normalised cross product of the new Right with the new Front; it changes no
  other field, and the result is the frame \<^const>\<open>basis_front\<close>, \<^const>\<open>basis_right\<close>,
  \<^const>\<open>basis_up\<close> written from the description.
\<close>

theorem basis_update_formula:
  "Front (updateCameraVectors c) =
     normalize_vec3 (Vec3 (cos (radians (Yaw c)) * cos (radians (Pitch c)))
                          (sin (radians (Pitch c)))
                          (sin (radians (Yaw c)) * cos (radians (Pitch c))))
   \<and> Right (updateCameraVectors c) =
       normalize_vec3 (cross (Front (updateCameraVectors c)) (WorldUp c))
   \<and> Up (updateCameraVectors c) =
       normalize_vec3 (cross (Right (updateCameraVectors c)) (Front (updateCameraVectors c)))
   \<and> updateCameraVectors c =
       c\<lparr>Front := basis_front (Yaw c) (Pitch c),
         Right := basis_right (Yaw c) (Pitch c) (WorldUp c),
         Up := basis_up (Yaw c) (Pitch c) (WorldUp c)\<rparr>"
  by (simp add: updateCameraVectors_def Let_def basis_front_def basis_right_def basis_up_def)

section \<open>The camera frame\<close>

lemma basis_front_explicit:
  "basis_front yaw pitch =
     Vec3 (cos (radians yaw) * cos (radians pitch)) (sin (radians pitch))
          (sin (radians yaw) * cos (radians pitch))"
  unfolding basis_front_def
  by (rule normalize_unit) (simp add: unit_sphere_identity cos_sin_unit)

lemma cos_radians_pos:
  assumes "- 89 \<le> pitch" and "pitch \<le> 89"
  shows "0 < cos (radians pitch)"
proof (rule cos_gt_zero_pi)
  have "(- 90) * (pi / 180) < pitch * (pi / 180)"
    using assms(1) by (intro mult_strict_right_mono) simp_all
  then show "- (pi / 2) < radians pitch"
    by (simp add: radians_def)
  show "radians pitch < pi / 2"
    using assms(2) by (simp add: radians_def)
qed

lemma basis_right_explicit:
  assumes "0 < cos (radians pitch)"
  shows "basis_right yaw pitch (Vec3 0 1 0) = Vec3 (- sin (radians yaw)) 0 (cos (radians yaw))"
proof -
  let ?cy = "cos (radians yaw)" and ?sy = "sin (radians yaw)" and ?cp = "cos (radians pitch)"
  have d: "?sy * ?cp * (?sy * ?cp) + ?cy * ?cp * (?cy * ?cp) = ?cp * ?cp"
    by (rule scaled_unit_identity) (rule cos_sin_unit)
  have s: "sqrt (?cp * ?cp) = ?cp"
    using assms by simp
  show ?thesis
    using assms by (simp add: basis_right_def basis_front_explicit normalize_vec3_def inversesqrt_def d s)
qed

lemma basis_up_explicit:
  assumes "0 < cos (radians pitch)"
  shows "basis_up yaw pitch (Vec3 0 1 0) =
           Vec3 (- (sin (radians pitch) * cos (radians yaw))) (cos (radians pitch))
                (- (sin (radians pitch) * sin (radians yaw)))"
proof -
  let ?cy = "cos (radians yaw)" and ?sy = "sin (radians yaw)"
  let ?cp = "cos (radians pitch)" and ?sp = "sin (radians pitch)"
  let ?u = "Vec3 (- (?sp * ?cy)) ?cp (- (?sp * ?sy))"
  have "?cy * (?cy * ?cp) + ?sy * ?cp * ?sy = ?cp"
    by (rule factor_unit_identity) (rule cos_sin_unit)
  then have c: "cross (Vec3 (- ?sy) 0 ?cy) (Vec3 (?cy * ?cp) ?sp (?sy * ?cp)) = ?u"
    by simp
  have "dot ?u ?u = ?cy * ?sp * (?cy * ?sp) + ?cp * ?cp + ?sy * ?sp * (?sy * ?sp)"
    by (simp add: algebra_simps)
  also have "\<dots> = 1"
    by (rule unit_sphere_identity) (simp_all add: cos_sin_unit add.commute)
  finally have "normalize_vec3 ?u = ?u"
    by (rule normalize_unit)
  then show ?thesis
    by (simp only: basis_up_def basis_right_explicit [OF assms] basis_front_explicit c)
qed

lemma cos_radians_neg90: "cos (radians (- 90)) = 0"
  by (simp add: radians_def)

lemma sin_radians_neg90: "sin (radians (- 90)) = - 1"
  by (simp add: radians_def)

lemma radians_0: "radians 0 = 0"
  by (simp add: radians_def)

lemma basis_front_reset: "basis_front (- 90) 0 = Vec3 0 0 (- 1)"
  by (simp add: basis_front_def cos_radians_neg90 sin_radians_neg90 radians_0 normalize_vec3_def inversesqrt_def)

lemma cos_radians_0: "0 < cos (radians 0)"
  by (simp add: radians_0)

lemma ProcessMouseMovement_eq:
  "ProcessMouseMovement c xoffset yoffset True =
     updateCameraVectors
       (c\<lparr>Yaw := Yaw c + xoffset * MouseSensitivity c,
          Pitch := max (-89) (min 89 (Pitch c + yoffset * MouseSensitivity c))\<rparr>)"
  by (simp add: ProcessMouseMovement_def Let_def min_def max_def)

lemma ProcessMouseMovement_Pitch:
  "- 89 \<le> Pitch (ProcessMouseMovement c xoffset yoffset True) \<and>
   Pitch (ProcessMouseMovement c xoffset yoffset True) \<le> 89"
  by (simp add: ProcessMouseMovement_eq updateCameraVectors_fields)

lemma look_all_Pitch:
  "- 89 \<le> Pitch c \<Longrightarrow> Pitch c \<le> 89 \<Longrightarrow>
   - 89 \<le> Pitch (look_all c moves) \<and> Pitch (look_all c moves) \<le> 89"
  by (induction c moves rule: look_all.induct) (simp_all add: ProcessMouseMovement_Pitch)

lemma camera_Pitch: "Pitch camera = 0"
  by (simp add: camera_def Camera_new_def updateCameraVectors_fields PITCH_def)

lemma camera_Yaw: "Yaw camera = -90"
  by (simp add: camera_def Camera_new_def updateCameraVectors_fields YAW_def)

lemma camera_WorldUp: "WorldUp camera = Vec3 0 1 0"
  by (simp add: camera_def Camera_new_def updateCameraVectors_fields)

lemma camera_eq: "camera = updateCameraVectors camera"
  by (simp add: camera_def Camera_new_def updateCameraVectors_idem)

lemma camera_Front: "Front camera = Vec3 0 0 (- 1)"
  by (simp add: camera_def Camera_new_def updateCameraVectors_eq YAW_def PITCH_def basis_front_reset)

lemma camera_Right: "Right camera = Vec3 1 0 0"
  by (simp add: camera_def Camera_new_def updateCameraVectors_eq YAW_def PITCH_def
      basis_right_explicit [OF cos_radians_0] cos_radians_neg90 sin_radians_neg90)

lemma camera_Up: "Up camera = Vec3 0 1 0"
  by (simp add: camera_def Camera_new_def updateCameraVectors_eq YAW_def PITCH_def
      basis_up_explicit [OF cos_radians_0] cos_radians_neg90 sin_radians_neg90 radians_0)

lemma camera_frame_update:
  assumes "WorldUp c = Vec3 0 1 0" and "- 89 \<le> Pitch c" and "Pitch c \<le> 89"
  shows "camera_frame (updateCameraVectors c)"
proof -
  let ?cy = "cos (radians (Yaw c))" and ?sy = "sin (radians (Yaw c))"
  let ?cp = "cos (radians (Pitch c))" and ?sp = "sin (radians (Pitch c))"
  let ?F = "Vec3 (?cy * ?cp) ?sp (?sy * ?cp)"
  let ?R = "Vec3 (- ?sy) 0 ?cy"
  let ?U = "Vec3 (- (?sp * ?cy)) ?cp (- (?sp * ?sy))"
  have pos: "0 < ?cp"
    using assms(2,3) by (rule cos_radians_pos)
  have f: "Front (updateCameraVectors c) = ?F"
    by (simp add: updateCameraVectors_eq basis_front_explicit)
  have r: "Right (updateCameraVectors c) = ?R"
    by (simp add: updateCameraVectors_eq assms(1) basis_right_explicit [OF pos])
  have u: "Up (updateCameraVectors c) = ?U"
    by (simp add: updateCameraVectors_eq assms(1) basis_up_explicit [OF pos])
  note fa = frame_algebra [of ?cy ?sy ?cp ?sp, OF cos_sin_unit cos_sin_unit]
  have "0 < dot (cross ?R ?U) (vec3_scale ?F (- 1))"
    using fa(3) by linarith
  moreover have "\<not> 0 < dot (cross ?F ?R) ?U"
    using fa(4) by linarith
  ultimately show ?thesis
    unfolding camera_frame_def right_handed_def f r u
    using fa(1,2) by blast
qed

lemma camera_frame_look:
  assumes "WorldUp c = Vec3 0 1 0"
  shows "camera_frame (ProcessMouseMovement c xoffset yoffset True)"
  unfolding ProcessMouseMovement_eq
  by (rule camera_frame_update) (simp_all add: assms)

lemma camera_frame_reset:
  assumes "WorldUp c = Vec3 0 1 0"
  shows "camera_frame (Set_camera c po)"
  unfolding Set_camera_def
  by (rule camera_frame_update) (simp_all add: assms)

lemma ProcessMouseMovement_recomputed:
  "updateCameraVectors (ProcessMouseMovement c xoffset yoffset constrainPitch) =
     ProcessMouseMovement c xoffset yoffset constrainPitch"
  by (simp add: ProcessMouseMovement_def Let_def updateCameraVectors_idem)

lemma Set_camera_recomputed:
  "updateCameraVectors (Set_camera c po) = Set_camera c po"
  by (simp add: Set_camera_def updateCameraVectors_idem)

lemma ProcessKeyboard_eq:
  "ProcessKeyboard c direction deltaTime =
     c\<lparr>Position :=
         (case direction of
            FORWARD \<Rightarrow> vec3_add (Position c) (vec3_scale (Front c) (MovementSpeed c * deltaTime))
          | BACKWARD \<Rightarrow> vec3_sub (Position c) (vec3_scale (Front c) (MovementSpeed c * deltaTime))
          | LEFT \<Rightarrow> vec3_sub (Position c) (vec3_scale (Right c) (MovementSpeed c * deltaTime))
          | RIGHT \<Rightarrow> vec3_add (Position c) (vec3_scale (Right c) (MovementSpeed c * deltaTime)))\<rparr>"
  by (cases direction) (simp_all add: ProcessKeyboard_def Let_def)

lemma ProcessMouseScroll_eq:
  "ProcessMouseScroll c yoffset = c\<lparr>Zoom := min 45 (max 1 (Zoom c - yoffset))\<rparr>"
  by (simp add: ProcessMouseScroll_def Let_def min_def max_def)

lemma camera_frame_initial: "camera_frame camera"
  unfolding camera_def Camera_new_def
  by (rule camera_frame_update) (simp_all add: PITCH_def)

lemma reachable_invariant:
  "reachable c \<Longrightarrow> WorldUp c = Vec3 0 1 0 \<and> camera_frame c"
proof (induction rule: reachable.induct)
  case initial
  show ?case
    by (simp add: camera_WorldUp camera_frame_initial)
next
  case (move c direction deltaTime)
  then show ?case
    by (simp add: ProcessKeyboard_eq camera_frame_def)
next
  case (look c xoffset yoffset)
  then show ?case
    by (simp add: camera_frame_look) (simp add: ProcessMouseMovement_eq updateCameraVectors_fields)
next
  case (zoom c yoffset)
  then show ?case
    by (simp add: ProcessMouseScroll_eq camera_frame_def)
next
  case (reset c)
  then show ?case
    by (simp add: camera_frame_reset) (simp add: Set_camera_def updateCameraVectors_fields)
qed

text \<open>
  Claim C1, as amended. With the world-up vector (0, 1, 0) that the program's camera
  is constructed with and that no method changes: for every yaw (in particular every
  yaw in (-180, 180]) and every pitch in [-89, 89], the Front, Right and Up vectors
  that \<^verbatim>\<open>updateCameraVectors\<close> computes are pairwise orthogonal unit vectors, and
  Right \<open>\<times>\<close> Up is the opposite of Front: the axes (Right, Up, -Front) are a
  right-handed orthonormal frame, while the triple in the order (Front, Right, Up) is
  not right-handed. The same holds after every \<^verbatim>\<open>ProcessMouseMovement\<close> call that
  constrains the pitch and after every \<^verbatim>\<open>Set\<close>; both leave a camera whose basis is
  the one \<^verbatim>\<open>updateCameraVectors\<close> computes from its current yaw and pitch. Hence
  every state that the program's camera reaches has world-up (0, 1, 0) and such a
  frame.
\<close>

theorem camera_frame_orthonormal:
  assumes "WorldUp c = Vec3 0 1 0"
  shows "(- 89 \<le> Pitch c \<and> Pitch c \<le> 89 \<longrightarrow> camera_frame (updateCameraVectors c))
    \<and> camera_frame (ProcessMouseMovement c xoffset yoffset True)
    \<and> camera_frame (Set_camera c po)
    \<and> updateCameraVectors (ProcessMouseMovement c xoffset yoffset constrainPitch) =
        ProcessMouseMovement c xoffset yoffset constrainPitch
    \<and> updateCameraVectors (Set_camera c po) = Set_camera c po
    \<and> (\<forall>c'. reachable c' \<longrightarrow> WorldUp c' = Vec3 0 1 0 \<and> camera_frame c')"
  using assms
  by (simp add: camera_frame_update camera_frame_look camera_frame_reset
      ProcessMouseMovement_recomputed Set_camera_recomputed reachable_invariant)

text \<open>
  The program's camera (yaw -90, pitch 0) satisfies the amended statement, and so
  does the state it reaches by one step forward and one large mouse movement.
\<close>

theorem camera_frame_orthonormal_witness:
  "WorldUp camera = Vec3 0 1 0 \<and> - 89 \<le> Pitch camera \<and> Pitch camera \<le> 89
   \<and> camera_frame (updateCameraVectors camera)
   \<and> camera_frame (ProcessMouseMovement camera 250 (- 4000) True)
   \<and> camera_frame (Set_camera camera (Vec3 0 0 5))
   \<and> reachable (ProcessMouseMovement (ProcessKeyboard camera FORWARD 1) 250 (- 4000) True)
   \<and> camera_frame (ProcessMouseMovement (ProcessKeyboard camera FORWARD 1) 250 (- 4000) True)"
proof -
  have p: "- 89 \<le> Pitch camera \<and> Pitch camera \<le> 89"
    by (simp add: camera_Pitch)
  have r: "reachable (ProcessMouseMovement (ProcessKeyboard camera FORWARD 1) 250 (- 4000) True)"
    by (intro reachable.look reachable.move reachable.initial)
  from camera_frame_orthonormal [OF camera_WorldUp] p r camera_WorldUp show ?thesis
    by blast
qed

text \<open>
  The claim as stated fails at the program's initial camera (yaw -90, pitch 0): the
  triple is orthonormal, but Front \<open>\<times>\<close> Right is (0, -1, 0), the opposite of Up, so
  (Front, Right, Up) in this order is left-handed.
\<close>

theorem camera_frame_counterexample:
  "- 180 < Yaw camera \<and> Yaw camera \<le> 180 \<and> - 89 \<le> Pitch camera \<and> Pitch camera \<le> 89
   \<and> updateCameraVectors camera = camera
   \<and> orthonormal (Front camera) (Right camera) (Up camera)
   \<and> cross (Front camera) (Right camera) = Vec3 0 (- 1) 0
   \<and> Up camera = Vec3 0 1 0
   \<and> \<not> right_handed (Front camera) (Right camera) (Up camera)"
  using camera_eq
  by (simp add: camera_Yaw camera_Pitch camera_Front camera_Right camera_Up
      right_handed_def orthonormal_def vec3_length_def)

section \<open>Looking around\<close>

text \<open>
  Claim C5. From every camera whose pitch lies in [-89, 89], after every finite
  sequence of \<^verbatim>\<open>ProcessMouseMovement\<close> calls with \<^verbatim>\<open>constrainPitch = true\<close> and
  arbitrary offsets the pitch lies in [-89, 89]; one call adds the offsets, scaled by
  the mouse sensitivity, to yaw and pitch, clamps the pitch to that interval and then
  recomputes the basis.
\<close>

theorem pitch_stays_clamped:
  assumes "- 89 \<le> Pitch c" and "Pitch c \<le> 89"
  shows "- 89 \<le> Pitch (look_all c moves) \<and> Pitch (look_all c moves) \<le> 89
         \<and> (\<forall>c' xoffset yoffset.
               ProcessMouseMovement c' xoffset yoffset True =
                 updateCameraVectors
                   (c'\<lparr>Yaw := Yaw c' + xoffset * MouseSensitivity c',
                       Pitch := max (- 89) (min 89 (Pitch c' + yoffset * MouseSensitivity c'))\<rparr>))"
  using assms by (simp add: look_all_Pitch ProcessMouseMovement_eq)

theorem pitch_stays_clamped_witness:
  "- 89 \<le> Pitch camera \<and> Pitch camera \<le> 89
   \<and> - 89 \<le> Pitch (look_all camera [(3, 100000), (- 7, - 5000000)])
   \<and> Pitch (look_all camera [(3, 100000), (- 7, - 5000000)]) \<le> 89
   \<and> Pitch (look_all camera [(3, 100000)]) = 89
   \<and> Pitch (look_all camera [(3, 100000), (- 7, - 5000000)]) = - 89"
proof -
  have lo: "- 89 \<le> Pitch camera" and hi: "Pitch camera \<le> 89"
    by (simp_all add: camera_Pitch)
  have s: "MouseSensitivity camera = 0.1"
    by (simp add: camera_def Camera_new_def updateCameraVectors_fields SENSITIVITY_def)
  have v: "Pitch (look_all camera [(3, 100000)]) = 89"
    "Pitch (look_all camera [(3, 100000), (- 7, - 5000000)]) = - 89"
    by (simp_all add: ProcessMouseMovement_eq updateCameraVectors_fields camera_Pitch s)
  from pitch_stays_clamped [OF lo hi, of "[(3, 100000), (- 7, - 5000000)]"] lo hi v show ?thesis
    by blast
qed

section \<open>Reset\<close>

text \<open>
  Claim C7. For every camera and position, \<^verbatim>\<open>Set\<close> stores the position, sets yaw to
  -90 and pitch to 0 and recomputes the basis; afterwards Front is (0, 0, -1).
\<close>

theorem reset_restores_view:
  "Set_camera c p = updateCameraVectors (c\<lparr>Position := p, Yaw := - 90, Pitch := 0\<rparr>)
   \<and> Position (Set_camera c p) = p
   \<and> Yaw (Set_camera c p) = - 90
   \<and> Pitch (Set_camera c p) = 0
   \<and> Front (Set_camera c p) = Vec3 0 0 (- 1)"
  by (simp add: Set_camera_def updateCameraVectors_fields) (simp add: updateCameraVectors_eq basis_front_reset)

section \<open>Moving\<close>

lemma camera_MovementSpeed: "MovementSpeed camera = SPEED"
  by (simp add: camera_def Camera_new_def updateCameraVectors_fields)

text \<open>
  Claim C8. For every camera, direction and time step, \<^verbatim>\<open>ProcessKeyboard\<close> changes
  only the position: it adds (forward, right) or subtracts (backward, left) the Front
  or the Right vector scaled by speed times the time step. Nothing bounds the result:
  with a non-zero speed a single call reaches every point of the line through the
  position along Front and along Right.
\<close>

theorem move_translates_position:
  "ProcessKeyboard c FORWARD deltaTime =
     c\<lparr>Position := vec3_add (Position c) (vec3_scale (Front c) (MovementSpeed c * deltaTime))\<rparr>
   \<and> ProcessKeyboard c BACKWARD deltaTime =
     c\<lparr>Position := vec3_sub (Position c) (vec3_scale (Front c) (MovementSpeed c * deltaTime))\<rparr>
   \<and> ProcessKeyboard c LEFT deltaTime =
     c\<lparr>Position := vec3_sub (Position c) (vec3_scale (Right c) (MovementSpeed c * deltaTime))\<rparr>
   \<and> ProcessKeyboard c RIGHT deltaTime =
     c\<lparr>Position := vec3_add (Position c) (vec3_scale (Right c) (MovementSpeed c * deltaTime))\<rparr>
   \<and> (MovementSpeed c \<noteq> 0 \<longrightarrow>
        (\<forall>k. \<exists>t. Position (ProcessKeyboard c FORWARD t) =
                  vec3_add (Position c) (vec3_scale (Front c) k))
      \<and> (\<forall>k. \<exists>t. Position (ProcessKeyboard c RIGHT t) =
                  vec3_add (Position c) (vec3_scale (Right c) k)))"
proof -
  have reach: "\<exists>t. MovementSpeed c * t = k" if "MovementSpeed c \<noteq> 0" for k
    using that by (intro exI [of _ "k / MovementSpeed c"]) simp
  have "\<exists>t. Position (ProcessKeyboard c FORWARD t) = vec3_add (Position c) (vec3_scale (Front c) k)"
    if "MovementSpeed c \<noteq> 0" for k
    using reach [OF that, of k] by (auto simp: ProcessKeyboard_eq)
  moreover have "\<exists>t. Position (ProcessKeyboard c RIGHT t) = vec3_add (Position c) (vec3_scale (Right c) k)"
    if "MovementSpeed c \<noteq> 0" for k
    using reach [OF that, of k] by (auto simp: ProcessKeyboard_eq)
  ultimately show ?thesis
    by (simp add: ProcessKeyboard_eq)
qed

theorem move_translates_position_witness:
  "MovementSpeed camera \<noteq> 0
   \<and> (\<exists>t. Position (ProcessKeyboard camera FORWARD t) =
            vec3_add (Position camera) (vec3_scale (Front camera) 1000000))
   \<and> ProcessKeyboard camera LEFT 2 =
       camera\<lparr>Position := vec3_sub (Position camera) (vec3_scale (Right camera) (MovementSpeed camera * 2))\<rparr>"
proof -
  have s: "MovementSpeed camera \<noteq> 0"
    by (simp add: camera_MovementSpeed SPEED_def)
  from move_translates_position [of camera 2] s show ?thesis
    by blast
qed

section \<open>Field of view\<close>

lemma ProcessMouseScroll_range:
  "1 \<le> Zoom (ProcessMouseScroll c yoffset) \<and> Zoom (ProcessMouseScroll c yoffset) \<le> 45"
  by (simp add: ProcessMouseScroll_eq)

lemma zoom_all_range:
  "1 \<le> Zoom c \<Longrightarrow> Zoom c \<le> 45 \<Longrightarrow>
   1 \<le> Zoom (zoom_all c ys) \<and> Zoom (zoom_all c ys) \<le> 45"
  by (induction ys arbitrary: c) (simp_all add: ProcessMouseScroll_range)

lemma camera_Zoom: "Zoom camera = ZOOM"
  by (simp add: camera_def Camera_new_def updateCameraVectors_def Let_def)

text \<open>
  Claim C6. Starting from the default field of view \<^term>\<open>ZOOM\<close> (45 degrees), after
  every non-empty sequence of \<^verbatim>\<open>ProcessMouseScroll\<close> calls with arbitrary offsets the
  field of view lies between 1 and 45 degrees; one call subtracts the offset from the
  field of view and clamps the difference to that interval, changing nothing else.
\<close>

theorem zoom_stays_in_range:
  assumes "Zoom c = ZOOM" and "ys \<noteq> []"
  shows "1 \<le> Zoom (zoom_all c ys) \<and> Zoom (zoom_all c ys) \<le> 45
         \<and> (\<forall>c' y. ProcessMouseScroll c' y = c'\<lparr>Zoom := min 45 (max 1 (Zoom c' - y))\<rparr>)"
proof -
  from assms(1) have "1 \<le> Zoom c" and "Zoom c \<le> 45"
    by (simp_all add: ZOOM_def)
  then show ?thesis
    by (simp add: zoom_all_range ProcessMouseScroll_eq)
qed

theorem zoom_stays_in_range_witness:
  "Zoom camera = ZOOM \<and> [50, -100, 3] \<noteq> ([]::real list)
   \<and> 1 \<le> Zoom (zoom_all camera [50, -100, 3])
   \<and> Zoom (zoom_all camera [50, -100, 3]) \<le> 45
   \<and> Zoom (zoom_all camera [50]) = 1
   \<and> Zoom (zoom_all camera [50, -100]) = 45
   \<and> Zoom (zoom_all camera [50, -100, 3]) = 42"
proof -
  have n: "[50, -100, 3] \<noteq> ([]::real list)"
    by simp
  have v: "Zoom (zoom_all camera [50]) = 1" "Zoom (zoom_all camera [50, -100]) = 45"
    "Zoom (zoom_all camera [50, -100, 3]) = 42"
    by (simp_all add: ProcessMouseScroll_eq camera_Zoom ZOOM_def)
  from zoom_stays_in_range [OF camera_Zoom n] camera_Zoom n v show ?thesis
    by blast
qed

section \<open>Counts, layout and bounds of the sphere mesh\<close>

subsection \<open>The loops in closed form\<close>

lemma sphere_vertex_loop_x_step:
  "x \<le> xseg \<Longrightarrow>
   sphere_vertex_loop_x xseg yseg y x vs =
     sphere_vertex_loop_x xseg yseg y (x + 1) (vs @ grid_floats xseg yseg y x)"
  by (subst sphere_vertex_loop_x.simps) (simp add: Let_def grid_floats_def)

lemma sphere_vertex_loop_x_stop:
  "\<not> x \<le> xseg \<Longrightarrow> sphere_vertex_loop_x xseg yseg y x vs = vs"
  by (subst sphere_vertex_loop_x.simps) simp

lemma sphere_vertex_loop_x_eq:
  "sphere_vertex_loop_x xseg yseg y x vs = vs @ concat (map (grid_floats xseg yseg y) [x..xseg])"
proof (induction "nat (xseg + 1 - x)" arbitrary: x vs)
  case 0
  then have "\<not> x \<le> xseg"
    by simp
  then show ?case
    by (simp add: sphere_vertex_loop_x_stop)
next
  case (Suc n)
  then have le: "x \<le> xseg" and n: "n = nat (xseg + 1 - (x + 1))"
    by simp_all
  have "sphere_vertex_loop_x xseg yseg y x vs =
      (vs @ grid_floats xseg yseg y x) @ concat (map (grid_floats xseg yseg y) [x + 1..xseg])"
    by (simp only: sphere_vertex_loop_x_step [OF le] Suc.hyps(1) [OF n])
  also have "\<dots> = vs @ concat (map (grid_floats xseg yseg y) [x..xseg])"
    by (simp add: upto_rec1 [OF le])
  finally show ?case .
qed

lemma sphere_vertex_loop_y_step:
  "y \<le> yseg \<Longrightarrow>
   sphere_vertex_loop_y xseg yseg y vs =
     sphere_vertex_loop_y xseg yseg (y + 1) (vs @ vertex_row xseg yseg y)"
  by (subst sphere_vertex_loop_y.simps) (simp add: sphere_vertex_loop_x_eq vertex_row_def)

lemma sphere_vertex_loop_y_stop:
  "\<not> y \<le> yseg \<Longrightarrow> sphere_vertex_loop_y xseg yseg y vs = vs"
  by (subst sphere_vertex_loop_y.simps) simp

lemma sphere_vertex_loop_y_eq:
  "sphere_vertex_loop_y xseg yseg y vs = vs @ concat (map (vertex_row xseg yseg) [y..yseg])"
proof (induction "nat (yseg + 1 - y)" arbitrary: y vs)
  case 0
  then have "\<not> y \<le> yseg"
    by simp
  then show ?case
    by (simp add: sphere_vertex_loop_y_stop)
next
  case (Suc n)
  then have le: "y \<le> yseg" and n: "n = nat (yseg + 1 - (y + 1))"
    by simp_all
  have "sphere_vertex_loop_y xseg yseg y vs =
      (vs @ vertex_row xseg yseg y) @ concat (map (vertex_row xseg yseg) [y + 1..yseg])"
    by (simp only: sphere_vertex_loop_y_step [OF le] Suc.hyps(1) [OF n])
  also have "\<dots> = vs @ concat (map (vertex_row xseg yseg) [y..yseg])"
    by (simp add: upto_rec1 [OF le])
  finally show ?case .
qed

lemma sphereVertices_eq:
  "sphereVertices xseg yseg = concat (map (vertex_row xseg yseg) [0..yseg])"
  by (simp add: sphereVertices_def sphere_vertex_loop_y_eq)

lemma sphere_index_loop_j_step:
  "j < xseg \<Longrightarrow>
   sphere_index_loop_j xseg i j inds =
     sphere_index_loop_j xseg i (j + 1) (inds @ quad_indices xseg i j)"
  by (subst sphere_index_loop_j.simps) (simp add: quad_indices_def)

lemma sphere_index_loop_j_stop:
  "\<not> j < xseg \<Longrightarrow> sphere_index_loop_j xseg i j inds = inds"
  by (subst sphere_index_loop_j.simps) simp

lemma sphere_index_loop_j_eq:
  "sphere_index_loop_j xseg i j inds = inds @ concat (map (quad_indices xseg i) [j..xseg - 1])"
proof (induction "nat (xseg - j)" arbitrary: j inds)
  case 0
  then have "\<not> j < xseg"
    by simp
  then show ?case
    by (simp add: sphere_index_loop_j_stop)
next
  case (Suc n)
  then have lt: "j < xseg" and n: "n = nat (xseg - (j + 1))"
    by simp_all
  from lt have le: "j \<le> xseg - 1"
    by simp
  have "sphere_index_loop_j xseg i j inds =
      (inds @ quad_indices xseg i j) @ concat (map (quad_indices xseg i) [j + 1..xseg - 1])"
    by (simp only: sphere_index_loop_j_step [OF lt] Suc.hyps(1) [OF n])
  also have "\<dots> = inds @ concat (map (quad_indices xseg i) [j..xseg - 1])"
    by (simp add: upto_rec1 [OF le])
  finally show ?case .
qed

lemma sphere_index_loop_i_step:
  "i < yseg \<Longrightarrow>
   sphere_index_loop_i xseg yseg i inds =
     sphere_index_loop_i xseg yseg (i + 1) (inds @ index_row xseg i)"
  by (subst sphere_index_loop_i.simps) (simp add: sphere_index_loop_j_eq index_row_def)

lemma sphere_index_loop_i_stop:
  "\<not> i < yseg \<Longrightarrow> sphere_index_loop_i xseg yseg i inds = inds"
  by (subst sphere_index_loop_i.simps) simp

lemma sphere_index_loop_i_eq:
  "sphere_index_loop_i xseg yseg i inds = inds @ concat (map (index_row xseg) [i..yseg - 1])"
proof (induction "nat (yseg - i)" arbitrary: i inds)
  case 0
  then have "\<not> i < yseg"
    by simp
  then show ?case
    by (simp add: sphere_index_loop_i_stop)
next
  case (Suc n)
  then have lt: "i < yseg" and n: "n = nat (yseg - (i + 1))"
    by simp_all
  from lt have le: "i \<le> yseg - 1"
    by simp
  have "sphere_index_loop_i xseg yseg i inds =
      (inds @ index_row xseg i) @ concat (map (index_row xseg) [i + 1..yseg - 1])"
    by (simp only: sphere_index_loop_i_step [OF lt] Suc.hyps(1) [OF n])
  also have "\<dots> = inds @ concat (map (index_row xseg) [i..yseg - 1])"
    by (simp add: upto_rec1 [OF le])
  finally show ?case .
qed

lemma sphereIndices_eq:
  "sphereIndices xseg yseg = concat (map (index_row xseg) [0..yseg - 1])"
  by (simp add: sphereIndices_def sphere_index_loop_i_eq)

subsection \<open>Lists of blocks of one length\<close>

lemma length_concat_uniform:
  "(\<And>xs. xs \<in> set xss \<Longrightarrow> length xs = n) \<Longrightarrow> length (concat xss) = length xss * n"
  by (induction xss) simp_all

lemma nth_concat_uniform:
  assumes "\<And>xs. xs \<in> set xss \<Longrightarrow> length xs = n" and "i < length xss" and "j < n"
  shows "concat xss ! (i * n + j) = xss ! i ! j"
  using assms
proof (induction xss arbitrary: i)
  case Nil
  then show ?case by simp
next
  case (Cons xs xss)
  have len: "length xs = n"
    using Cons.prems(1) by simp
  show ?case
  proof (cases i)
    case 0
    then show ?thesis
      using len Cons.prems(3) by (simp add: nth_append)
  next
    case (Suc k)
    have "concat (xs # xss) ! (i * n + j) = concat xss ! (k * n + j)"
      using len Suc by (simp add: nth_append)
    also have "\<dots> = xss ! k ! j"
      using Cons.prems Suc by (intro Cons.IH) simp_all
    finally show ?thesis
      using Suc by simp
  qed
qed

subsection \<open>Vertices\<close>

lemma length_grid_floats: "length (grid_floats xseg yseg y x) = 3"
  by (simp add: grid_floats_def)

lemma length_vertex_row: "length (vertex_row xseg yseg y) = nat (xseg + 1) * 3"
  unfolding vertex_row_def
  by (subst length_concat_uniform [where n = 3]) (auto simp: length_grid_floats)

lemma length_sphereVertices:
  "length (sphereVertices xseg yseg) = nat (yseg + 1) * (nat (xseg + 1) * 3)"
  unfolding sphereVertices_eq
  by (subst length_concat_uniform [where n = "nat (xseg + 1) * 3"]) (auto simp: length_vertex_row)

lemma nth_vertex_row:
  assumes "j \<le> nat xseg" and "0 \<le> xseg" and "r < 3"
  shows "vertex_row xseg yseg y ! (j * 3 + r) = grid_floats xseg yseg y (int j) ! r"
proof -
  have "vertex_row xseg yseg y ! (j * 3 + r) = map (grid_floats xseg yseg y) [0..xseg] ! j ! r"
    unfolding vertex_row_def
    using assms by (intro nth_concat_uniform) (auto simp: length_grid_floats)
  also have "\<dots> = grid_floats xseg yseg y (int j) ! r"
    using assms by simp
  finally show ?thesis .
qed

lemma nth_sphereVertices:
  assumes "i \<le> nat yseg" and "j \<le> nat xseg" and "0 \<le> xseg" and "0 \<le> yseg" and "r < 3"
  shows "sphereVertices xseg yseg ! (3 * (i * (nat xseg + 1) + j) + r) =
         grid_floats xseg yseg (int i) (int j) ! r"
proof -
  have n: "nat (xseg + 1) = nat xseg + 1"
    using assms(3) by simp
  have idx: "3 * (i * (nat xseg + 1) + j) + r = i * (nat (xseg + 1) * 3) + (j * 3 + r)"
    unfolding n by (simp add: algebra_simps)
  have "j * 3 + r < nat (xseg + 1) * 3"
    using assms(2,5) n by simp
  then have "sphereVertices xseg yseg ! (i * (nat (xseg + 1) * 3) + (j * 3 + r)) =
      map (vertex_row xseg yseg) [0..yseg] ! i ! (j * 3 + r)"
    unfolding sphereVertices_eq
    using assms by (intro nth_concat_uniform) (auto simp: length_vertex_row)
  also have "\<dots> = vertex_row xseg yseg (int i) ! (j * 3 + r)"
    using assms by simp
  also have "\<dots> = grid_floats xseg yseg (int i) (int j) ! r"
    using assms by (intro nth_vertex_row)
  finally show ?thesis
    by (simp only: idx)
qed

lemma vertex_at_sphereVertices:
  assumes "i \<le> nat yseg" and "j \<le> nat xseg" and "0 \<le> xseg" and "0 \<le> yseg"
  shows "vertex_at (sphereVertices xseg yseg) (i * (nat xseg + 1) + j) =
         sphere_point xseg yseg (int j) (int i)"
proof -
  note nth = nth_sphereVertices [OF assms]
  have "vertex_at (sphereVertices xseg yseg) (i * (nat xseg + 1) + j) =
      Vec3 (grid_floats xseg yseg (int i) (int j) ! 0)
           (grid_floats xseg yseg (int i) (int j) ! 1)
           (grid_floats xseg yseg (int i) (int j) ! 2)"
    unfolding vertex_at_def
    using nth [of 0] nth [of 1] nth [of 2] by simp
  also have "\<dots> = sphere_point xseg yseg (int j) (int i)"
    by (simp add: grid_floats_def sphere_point_def PI_def Let_def mult.commute mult.left_commute)
  finally show ?thesis .
qed

lemma sphere_point_unit: "vec3_length (sphere_point xseg yseg x y) = 1"
proof -
  let ?a = "2 * pi * (real_of_int x / real_of_int xseg)"
  let ?b = "pi * (real_of_int y / real_of_int yseg)"
  have "cos ?a * sin ?b * (cos ?a * sin ?b) + cos ?b * cos ?b + sin ?a * sin ?b * (sin ?a * sin ?b) = 1"
    by (rule unit_sphere_identity) (simp_all add: cos_sin_unit add.commute)
  then show ?thesis
    by (simp add: sphere_point_def Let_def vec3_length_def)
qed

lemma vertex_count_sphereVertices:
  assumes "0 \<le> xseg" and "0 \<le> yseg"
  shows "vertex_count (sphereVertices xseg yseg) = nat ((xseg + 1) * (yseg + 1))"
proof -
  have "nat ((xseg + 1) * (yseg + 1)) = nat (yseg + 1) * nat (xseg + 1)"
    using assms by (simp add: nat_mult_distrib mult.commute)
  then show ?thesis
    by (simp add: vertex_count_def length_sphereVertices)
qed

lemma vertex_count_sphereVertices_nat:
  "vertex_count (sphereVertices xseg yseg) = nat (yseg + 1) * nat (xseg + 1)"
proof -
  have "nat (yseg + 1) * (nat (xseg + 1) * 3) = nat (yseg + 1) * nat (xseg + 1) * 3"
    by simp
  then show ?thesis
    unfolding vertex_count_def length_sphereVertices by simp
qed

lemma sphereVertices_unit:
  assumes "0 \<le> xseg" and "0 \<le> yseg" and "k < vertex_count (sphereVertices xseg yseg)"
  shows "vec3_length (vertex_at (sphereVertices xseg yseg) k) = 1"
proof -
  let ?n = "nat xseg + 1"
  have "nat (xseg + 1) = ?n"
    using assms(1) by simp
  then have "k < nat (yseg + 1) * ?n"
    using assms(3) by (simp only: vertex_count_sphereVertices_nat)
  then have "k div ?n < nat (yseg + 1)"
    by (simp add: less_mult_imp_div_less)
  then have i: "k div ?n \<le> nat yseg"
    using assms(2) by simp
  have j: "k mod ?n \<le> nat xseg"
    using mod_less_divisor [of ?n k] by simp
  have "vertex_at (sphereVertices xseg yseg) (k div ?n * ?n + k mod ?n) =
      sphere_point xseg yseg (int (k mod ?n)) (int (k div ?n))"
    using i j assms(1,2) by (rule vertex_at_sphereVertices)
  moreover have "k div ?n * ?n + k mod ?n = k"
    by (rule div_mult_mod_eq)
  ultimately show ?thesis
    by (simp only: sphere_point_unit)
qed

subsection \<open>Indices\<close>

lemma length_quad_indices: "length (quad_indices xseg i j) = 6"
  by (simp add: quad_indices_def)

lemma length_index_row: "length (index_row xseg i) = nat xseg * 6"
  unfolding index_row_def
  by (subst length_concat_uniform [where n = 6]) (auto simp: length_quad_indices)

lemma length_sphereIndices:
  "length (sphereIndices xseg yseg) = nat yseg * (nat xseg * 6)"
  unfolding sphereIndices_eq
  by (subst length_concat_uniform [where n = "nat xseg * 6"]) (auto simp: length_index_row)

lemma set_sphereIndices:
  "set (sphereIndices xseg yseg) =
     (\<Union>i\<in>{0..yseg - 1}. \<Union>j\<in>{0..xseg - 1}. set (quad_indices xseg i j))"
  by (simp add: sphereIndices_eq index_row_def)

lemma quad_indices_range:
  assumes "0 \<le> i" and "i < yseg" and "0 \<le> j" and "j < xseg" and "idx \<in> set (quad_indices xseg i j)"
  shows "0 \<le> idx \<and> idx \<le> (xseg + 1) * (yseg + 1) - 1"
proof -
  have lo: "0 \<le> i * (xseg + 1)"
    using assms(1,3,4) by simp
  have "(i + 1) * (xseg + 1) \<le> yseg * (xseg + 1)"
    using assms(2,3,4) by (intro mult_right_mono) simp_all
  then have hi: "(i + 1) * (xseg + 1) + j + 1 \<le> (xseg + 1) * (yseg + 1) - 1"
    using assms(4) by (simp add: algebra_simps)
  have mid: "i * (xseg + 1) \<le> (i + 1) * (xseg + 1)"
    using assms(3,4) by (simp add: algebra_simps)
  from assms(5) have
    "idx = i * (xseg + 1) + j \<or> idx = (i + 1) * (xseg + 1) + j
     \<or> idx = (i + 1) * (xseg + 1) + j + 1 \<or> idx = i * (xseg + 1) + j + 1"
    by (auto simp: quad_indices_def)
  with lo hi mid assms(3) show ?thesis
    by linarith
qed

lemma sphereIndices_range:
  assumes "idx \<in> set (sphereIndices xseg yseg)"
  shows "0 \<le> idx \<and> idx \<le> (xseg + 1) * (yseg + 1) - 1"
proof -
  from assms obtain i j where "0 \<le> i" "i < yseg" "0 \<le> j" "j < xseg"
      and "idx \<in> set (quad_indices xseg i j)"
    by (auto simp: set_sphereIndices)
  then show ?thesis
    by (rule quad_indices_range)
qed

lemma length_sphereIndices_nat:
  assumes "0 \<le> xseg" and "0 \<le> yseg"
  shows "length (sphereIndices xseg yseg) = nat (6 * yseg * xseg)"
  using assms by (simp add: length_sphereIndices nat_mult_distrib mult.commute)

lemma last_index_generated: "5040 \<in> set (sphereIndices X_SEGMENTS Y_SEGMENTS)"
proof -
  have "(5040::int) \<in> set (quad_indices 70 69 69)"
    by (simp add: quad_indices_def)
  moreover have "(69::int) \<in> {0..70 - 1}"
    by simp
  ultimately show ?thesis
    unfolding set_sphereIndices X_SEGMENTS_def Y_SEGMENTS_def by blast
qed

text \<open>
  Claim C3. With \<open>yseg\<close> latitude and \<open>xseg\<close> longitude segments (both positive),
  the generator produces exactly (yseg + 1)(xseg + 1) vertices of three floats each
  and exactly 6 yseg xseg index entries; the vertices stand in row-major order, the
  vertex of row \<open>i\<close> and column \<open>j\<close> at position i (xseg + 1) + j being
  (cos(2\<pi>u) sin(\<pi>v), cos(\<pi>v), sin(2\<pi>u) sin(\<pi>v)) with u = j / xseg and
  v = i / yseg; every generated vertex has length 1. For 2 by 2 segments there are
  9 vertices and 24 indices, that is 8 triangles.
\<close>

theorem sphere_mesh:
  assumes "0 < xseg" and "0 < yseg"
  shows "vertex_count (sphereVertices xseg yseg) = nat ((yseg + 1) * (xseg + 1))
    \<and> length (sphereVertices xseg yseg) = 3 * nat ((yseg + 1) * (xseg + 1))
    \<and> length (sphereIndices xseg yseg) = nat (6 * yseg * xseg)
    \<and> (\<forall>i j. i \<le> nat yseg \<and> j \<le> nat xseg \<longrightarrow>
          vertex_at (sphereVertices xseg yseg) (i * (nat xseg + 1) + j) =
            sphere_point xseg yseg (int j) (int i))
    \<and> (\<forall>k < vertex_count (sphereVertices xseg yseg).
          vec3_length (vertex_at (sphereVertices xseg yseg) k) = 1)
    \<and> vertex_count (sphereVertices 2 2) = 9
    \<and> length (sphereIndices 2 2) = 24
    \<and> length (sphereIndices 2 2) div 3 = 8"
proof -
  from assms have x: "0 \<le> xseg" and y: "0 \<le> yseg"
    by simp_all
  have "nat ((yseg + 1) * (xseg + 1)) = nat (yseg + 1) * nat (xseg + 1)"
    using x y by (simp add: nat_mult_distrib)
  then have len: "length (sphereVertices xseg yseg) = 3 * nat ((yseg + 1) * (xseg + 1))"
    by (simp add: length_sphereVertices)
  have cnt: "vertex_count (sphereVertices xseg yseg) = nat ((yseg + 1) * (xseg + 1))"
    using vertex_count_sphereVertices [OF x y] by (simp add: mult.commute)
  have small: "vertex_count (sphereVertices 2 2) = 9" "length (sphereIndices 2 2) = 24"
    by (simp_all add: vertex_count_def length_sphereVertices length_sphereIndices)
  show ?thesis
    using vertex_at_sphereVertices [OF _ _ x y] sphereVertices_unit [OF x y]
    by (simp add: len cnt small length_sphereIndices_nat [OF x y])
qed

text \<open>
  The 2 by 2 sphere: its counts, and its middle vertex (row 1, column 1), which is
  (-1, 0, 0).
\<close>

theorem sphere_mesh_witness:
  "(0::int) < 2
   \<and> vertex_count (sphereVertices 2 2) = nat ((2 + 1) * (2 + 1))
   \<and> length (sphereIndices 2 2) = nat (6 * 2 * 2)
   \<and> vertex_at (sphereVertices 2 2) (1 * (nat 2 + 1) + 1) = Vec3 (- 1) 0 0
   \<and> vec3_length (vertex_at (sphereVertices 2 2) 4) = 1"
proof -
  have pos: "(0::int) < 2"
    by simp
  note m = sphere_mesh [OF pos pos]
  have p: "sphere_point 2 2 (int 1) (int 1) = Vec3 (- 1) 0 0"
    by (simp add: sphere_point_def)
  have "(1::nat) \<le> nat 2 \<and> (1::nat) \<le> nat 2"
    by simp
  with m have v: "vertex_at (sphereVertices 2 2) (1 * (nat 2 + 1) + 1) = sphere_point 2 2 (int 1) (int 1)"
    by blast
  from m have c: "vertex_count (sphereVertices 2 2) = 9"
    by blast
  then have "4 < vertex_count (sphereVertices 2 2)"
    by simp
  with m have u: "vec3_length (vertex_at (sphereVertices 2 2) 4) = 1"
    by blast
  from m have "vertex_count (sphereVertices 2 2) = nat ((2 + 1) * (2 + 1))"
    and "length (sphereIndices 2 2) = nat (6 * 2 * 2)"
    by blast+
  with pos v p u show ?thesis
    by simp
qed

lemma length_sphereVertices_program:
  "length (sphereVertices X_SEGMENTS Y_SEGMENTS) = 15123"
  by (simp add: length_sphereVertices X_SEGMENTS_def Y_SEGMENTS_def)

lemma attrib_fetch_None:
  "attrib_fetch buffer a k = None \<longleftrightarrow>
     length buffer < attrib_pointer a + attrib_stride a * k + attrib_size a"
  by (simp add: attrib_fetch_def Let_def not_le)

lemma sphere_attrib0_None:
  "attrib_fetch (sphereVertices X_SEGMENTS Y_SEGMENTS) sphere_attrib0 k = None \<longleftrightarrow> 2521 \<le> k"
  unfolding attrib_fetch_None length_sphereVertices_program sphere_attrib0_def
  by simp arith

lemma sphere_attrib1_None:
  "attrib_fetch (sphereVertices X_SEGMENTS Y_SEGMENTS) sphere_attrib1 k = None \<longleftrightarrow> 2520 \<le> k"
  unfolding attrib_fetch_None length_sphereVertices_program sphere_attrib1_def
  by simp arith

lemma index_2520_generated: "2520 \<in> set (sphereIndices X_SEGMENTS Y_SEGMENTS)"
proof -
  have "(2520::int) \<in> set (quad_indices 70 35 35)"
    by (simp add: quad_indices_def)
  moreover have "(35::int) \<in> {0..70 - 1}"
    by simp
  ultimately show ?thesis
    unfolding set_sphereIndices X_SEGMENTS_def Y_SEGMENTS_def by blast
qed

lemma index_2521_generated: "2521 \<in> set (sphereIndices X_SEGMENTS Y_SEGMENTS)"
proof -
  have "(2521::int) \<in> set (quad_indices 70 35 36)"
    by (simp add: quad_indices_def)
  moreover have "(35::int) \<in> {0..70 - 1}" and "(36::int) \<in> {0..70 - 1}"
    by simp_all
  ultimately show ?thesis
    unfolding set_sphereIndices X_SEGMENTS_def Y_SEGMENTS_def by blast
qed

lemma length_sphereIndices_program:
  "int (length (sphereIndices X_SEGMENTS Y_SEGMENTS)) = draw_count X_SEGMENTS Y_SEGMENTS"
  "draw_count X_SEGMENTS Y_SEGMENTS = 29400"
  by (simp_all add: length_sphereIndices draw_count_def X_SEGMENTS_def Y_SEGMENTS_def)

lemma glDrawElements_program:
  "glDrawElements (sphereVertices X_SEGMENTS Y_SEGMENTS) (sphereIndices X_SEGMENTS Y_SEGMENTS)
      (draw_count X_SEGMENTS Y_SEGMENTS) =
   map (\<lambda>idx. (attrib_fetch (sphereVertices X_SEGMENTS Y_SEGMENTS) sphere_attrib0 (nat idx),
               attrib_fetch (sphereVertices X_SEGMENTS Y_SEGMENTS) sphere_attrib1 (nat idx)))
       (sphereIndices X_SEGMENTS Y_SEGMENTS)"
proof -
  have "nat (draw_count X_SEGMENTS Y_SEGMENTS) = length (sphereIndices X_SEGMENTS Y_SEGMENTS)"
    using length_sphereIndices_program(1) by linarith
  then show ?thesis
    by (simp add: glDrawElements_def)
qed

text \<open>
  Claim C10. The index loops emit only entries between 0 and
  (X_SEGMENTS + 1)(Y_SEGMENTS + 1) - 1 = 5040, each the number of a vertex that the
  vertex loops produced, and the element count passed to \<^verbatim>\<open>glDrawElements\<close> is the
  number of entries emitted. The indexed access of that draw call is nevertheless not
  in bounds in the program: the vertex buffer holds 15123 floats, three per vertex,
  but is bound with a stride of six floats, so the position read for index \<open>k\<close>
  starts at float 6k and lies outside the buffer exactly when k is at least 2521, and
  the normal read exactly when k is at least 2520. The draw call therefore reads
  outside the buffer, for instance both attributes of the emitted index 5040.
\<close>

theorem sphere_draw_reads_outside_buffer:
  "length (sphereVertices X_SEGMENTS Y_SEGMENTS) = 15123
   \<and> int (length (sphereIndices X_SEGMENTS Y_SEGMENTS)) = draw_count X_SEGMENTS Y_SEGMENTS
   \<and> (\<forall>idx \<in> set (sphereIndices X_SEGMENTS Y_SEGMENTS).
         0 \<le> idx \<and> idx \<le> (X_SEGMENTS + 1) * (Y_SEGMENTS + 1) - 1
         \<and> (attrib_fetch (sphereVertices X_SEGMENTS Y_SEGMENTS) sphere_attrib0 (nat idx) = None
              \<longleftrightarrow> 2521 \<le> idx)
         \<and> (attrib_fetch (sphereVertices X_SEGMENTS Y_SEGMENTS) sphere_attrib1 (nat idx) = None
              \<longleftrightarrow> 2520 \<le> idx))
   \<and> 5040 \<in> set (sphereIndices X_SEGMENTS Y_SEGMENTS)
   \<and> (None, None) \<in> set (glDrawElements (sphereVertices X_SEGMENTS Y_SEGMENTS)
          (sphereIndices X_SEGMENTS Y_SEGMENTS) (draw_count X_SEGMENTS Y_SEGMENTS))"
proof -
  let ?vs = "sphereVertices X_SEGMENTS Y_SEGMENTS" and ?is = "sphereIndices X_SEGMENTS Y_SEGMENTS"
  have each: "0 \<le> idx \<and> idx \<le> (X_SEGMENTS + 1) * (Y_SEGMENTS + 1) - 1
      \<and> (attrib_fetch ?vs sphere_attrib0 (nat idx) = None \<longleftrightarrow> 2521 \<le> idx)
      \<and> (attrib_fetch ?vs sphere_attrib1 (nat idx) = None \<longleftrightarrow> 2520 \<le> idx)"
    if "idx \<in> set ?is" for idx
  proof -
    from that have r: "0 \<le> idx" "idx \<le> (X_SEGMENTS + 1) * (Y_SEGMENTS + 1) - 1"
      using sphereIndices_range by blast+
    from r(1) have "(2521 \<le> nat idx) = (2521 \<le> idx)" and "(2520 \<le> nat idx) = (2520 \<le> idx)"
      by linarith+
    with r show ?thesis
      by (simp only: sphere_attrib0_None sphere_attrib1_None)
  qed
  have "attrib_fetch ?vs sphere_attrib0 (nat 5040) = None"
    and "attrib_fetch ?vs sphere_attrib1 (nat 5040) = None"
    by (simp_all add: sphere_attrib0_None sphere_attrib1_None)
  with last_index_generated have "(None, None) \<in> set (glDrawElements ?vs ?is (draw_count X_SEGMENTS Y_SEGMENTS))"
    unfolding glDrawElements_program by force
  with each last_index_generated length_sphereVertices_program length_sphereIndices_program(1)
  show ?thesis
    by blast
qed

text \<open>
  The emitted indices 5040, 2521 and 2520: the first two have no position inside the
  buffer, the third has its position in the last three floats and no normal.
\<close>

theorem sphere_draw_reads_outside_buffer_witness:
  "5040 \<in> set (sphereIndices X_SEGMENTS Y_SEGMENTS)
   \<and> attrib_fetch (sphereVertices X_SEGMENTS Y_SEGMENTS) sphere_attrib0 (nat 5040) = None
   \<and> attrib_fetch (sphereVertices X_SEGMENTS Y_SEGMENTS) sphere_attrib1 (nat 5040) = None
   \<and> 2521 \<in> set (sphereIndices X_SEGMENTS Y_SEGMENTS)
   \<and> attrib_fetch (sphereVertices X_SEGMENTS Y_SEGMENTS) sphere_attrib0 (nat 2521) = None
   \<and> 2520 \<in> set (sphereIndices X_SEGMENTS Y_SEGMENTS)
   \<and> attrib_fetch (sphereVertices X_SEGMENTS Y_SEGMENTS) sphere_attrib0 (nat 2520) \<noteq> None
   \<and> attrib_fetch (sphereVertices X_SEGMENTS Y_SEGMENTS) sphere_attrib1 (nat 2520) = None"
proof -
  note t = sphere_draw_reads_outside_buffer
  from t last_index_generated have
    a: "attrib_fetch (sphereVertices X_SEGMENTS Y_SEGMENTS) sphere_attrib0 (nat 5040) = None
        \<longleftrightarrow> (2521::int) \<le> 5040"
    and b: "attrib_fetch (sphereVertices X_SEGMENTS Y_SEGMENTS) sphere_attrib1 (nat 5040) = None
        \<longleftrightarrow> (2520::int) \<le> 5040"
    by blast+
  from t index_2521_generated have
    c: "attrib_fetch (sphereVertices X_SEGMENTS Y_SEGMENTS) sphere_attrib0 (nat 2521) = None
        \<longleftrightarrow> (2521::int) \<le> 2521"
    by blast
  from t index_2520_generated have
    d: "attrib_fetch (sphereVertices X_SEGMENTS Y_SEGMENTS) sphere_attrib0 (nat 2520) = None
        \<longleftrightarrow> (2521::int) \<le> 2520"
    and e: "attrib_fetch (sphereVertices X_SEGMENTS Y_SEGMENTS) sphere_attrib1 (nat 2520) = None
        \<longleftrightarrow> (2520::int) \<le> 2520"
    by blast+
  from a b c d e last_index_generated index_2521_generated index_2520_generated show ?thesis
    by simp
qed

section \<open>The orbit of the light\<close>

lemma animate_lightPos_eq:
  "animate_lightPos lightPos t = Vec3 (5 * cos t) (2 * cos t) (5 * sin t)"
  by (simp add: animate_lightPos_def Let_def)

text \<open>
  Claim C4, as amended. For every elapsed time \<open>t\<close> and whatever the light position
  was before, the frame's assignments leave the light at
  (R cos t, 2 cos t, R sin t) with R = 5: the radius scales the x and z components
  only, and the height has amplitude 2. At \<open>t = 0\<close> this is (5, 2, 0) and at
  \<open>t = \<pi>/2\<close> it is (0, 0, 5).
\<close>

theorem light_orbit:
  "animate_lightPos lightPos t = Vec3 (5 * cos t) (2 * cos t) (5 * sin t)
   \<and> animate_lightPos lightPos 0 = Vec3 5 2 0
   \<and> animate_lightPos lightPos (pi / 2) = Vec3 0 0 5"
  by (simp add: animate_lightPos_def Let_def)

text \<open>
  The formula of the claim as stated, R (cos t, 2 cos t, sin t) with R = 5, gives
  (5, 10, 0) at \<open>t = 0\<close>, where the program computes (5, 2, 0).
\<close>

theorem light_orbit_counterexample:
  "animate_lightPos lightPos_init 0 = Vec3 5 2 0
   \<and> vec3_scale (Vec3 (cos 0) (2 * cos 0) (sin 0)) 5 = Vec3 5 10 0
   \<and> animate_lightPos lightPos_init 0 \<noteq> vec3_scale (Vec3 (cos 0) (2 * cos 0) (sin 0)) 5"
  by (simp add: animate_lightPos_def Let_def)

section \<open>The shading rule\<close>

text \<open>
  Claim C9. For every normal, fragment position, light position, light colour and
  object colour, both lit fragment shaders output the colour
  (ambient + diffuse) \<open>\<times>\<close> objectColor with alpha 1, where ambient is the light colour
  times the ambient strength (0.15 in \<^verbatim>\<open>f_basic_lighting\<close>, 0.2 in \<^verbatim>\<open>f_humor_drill\<close>)
  and diffuse is the light colour times
  max(dot(normalize(normal), normalize(lightPos - fragPos)), 0). The output is a
  function of these five inputs alone.
\<close>

theorem fragment_shading:
  "f_basic_lighting Normal FragPos lightPos lightColor objectColor =
     phong_color 0.15 Normal FragPos lightPos lightColor objectColor
   \<and> f_humor_drill Normal FragPos objectColor lightPos lightColor =
     phong_color 0.2 Normal FragPos lightPos lightColor objectColor
   \<and> vec4_a (f_basic_lighting Normal FragPos lightPos lightColor objectColor) = 1
   \<and> vec4_a (f_humor_drill Normal FragPos objectColor lightPos lightColor) = 1
   \<and> vec4_rgb (f_basic_lighting Normal FragPos lightPos lightColor objectColor) =
       vec3_mul
         (vec3_add (vec3_scale lightColor 0.15)
            (vec3_scale lightColor
               (max (dot (normalize_vec3 Normal) (normalize_vec3 (vec3_sub lightPos FragPos))) 0)))
         objectColor
   \<and> vec4_rgb (f_humor_drill Normal FragPos objectColor lightPos lightColor) =
       vec3_mul
         (vec3_add (vec3_scale lightColor 0.2)
            (vec3_scale lightColor
               (max (dot (normalize_vec3 Normal) (normalize_vec3 (vec3_sub lightPos FragPos))) 0)))
         objectColor"
  by (simp add: f_basic_lighting_def f_humor_drill_def phong_color_def phong_ambient_def
      phong_diffuse_def Let_def)

end
